theory Spec2Isabelle
  imports Main
begin

section \<open>Python values and errors\<close>

text \<open>
  The client is one Python module, \<open>gmail_search.py\<close>. Exceptions are values: a function
  that may raise returns \<open>py_error + 'a\<close>, with \<open>Inl\<close> for the exception.
  \<open>SystemExit n\<close> is \<open>sys.exit(n)\<close>.
\<close>

datatype py_error =
    ValueError
  | KeyError
  | DecodeError
  | RefreshError
  | FlowError
  | EOFError
  | HttpError
  | FileNotFoundError
  | NotADirectoryError
  | IsADirectoryError
  | OSError
  | HeaderParseError
  | SystemExit nat

section \<open>Message parts\<close>

text \<open>
  A message payload is a JSON object of the mail service. Every key the code reads is
  optional (\<open>"body" in payload\<close>, \<open>part.get("mimeType")\<close>, \<open>"parts" in part\<close>), so every
  field is an option; \<open>parts = Some []\<close> (the key present, the list empty) is not the same
  as \<open>parts = None\<close> for \<open>extract_body\<close>.
\<close>

record part_body =
  data :: "string option"
  body_size :: "int option"
  attachmentId :: "string option"

datatype part =
  Part (mimeType: "string option") (filename: "string option")
       (body: "part_body option") (parts: "part list option")

text \<open>
  \<open>payload["body"].get("data")\<close> guarded by \<open>"body" in payload\<close>: the payload string, and
  the empty string where the key (or the body) is absent. The source tests it for
  truthiness, which for a string is non-emptiness.
\<close>

definition payload_data :: "part_body option \<Rightarrow> string" where
  "payload_data b =
     (case b of None \<Rightarrow> [] | Some bb \<Rightarrow> (case data bb of None \<Rightarrow> [] | Some d \<Rightarrow> d))"

definition has_data :: "part_body option \<Rightarrow> bool" where
  "has_data b = (payload_data b \<noteq> [])"

text \<open>
  \<open>extract_body\<close>, lines 245 to 263. The decoder
  \<open>base64.urlsafe_b64decode(_).decode("utf-8", errors="replace")\<close> is a library call that
  raises on malformed input; it is the parameter \<open>dec\<close>. The loop over
  \<open>payload["parts"]\<close> is \<open>extract_body_parts\<close>.
\<close>

fun extract_body :: "(string \<Rightarrow> py_error + string) \<Rightarrow> part \<Rightarrow> py_error + string"
  and extract_body_parts :: "(string \<Rightarrow> py_error + string) \<Rightarrow> part list \<Rightarrow> py_error + string"
where
  "extract_body dec (Part mt fn b ps) =
     (if has_data b then dec (payload_data b)
      else (case ps of None \<Rightarrow> Inr [] | Some cs \<Rightarrow> extract_body_parts dec cs))"
| "extract_body_parts dec [] = Inr []"
| "extract_body_parts dec (c # cs) =
     (if mimeType c = Some ''text/plain'' \<and> has_data (body c) then dec (payload_data (body c))
      else if parts c \<noteq> None then
        (case extract_body dec c of
           Inl e \<Rightarrow> Inl e
         | Inr b \<Rightarrow> if b \<noteq> [] then Inr b else extract_body_parts dec cs)
      else extract_body_parts dec cs)"

text \<open>
  The reading of \<open>extract_body\<close> in the specification, in its own words: (a) the node's
  own payload; (b) otherwise the first direct child, in order, that is plain text and
  carries a payload; (c) otherwise, and only then, the first non-empty result of recursing
  into each child in order; (d) otherwise empty. It is compared with the code below.
\<close>

fun extract_body_two_phase :: "(string \<Rightarrow> py_error + string) \<Rightarrow> part \<Rightarrow> py_error + string"
  and recurse_two_phase :: "(string \<Rightarrow> py_error + string) \<Rightarrow> part list \<Rightarrow> py_error + string"
where
  "extract_body_two_phase dec (Part mt fn b ps) =
     (if has_data b then dec (payload_data b)
      else (case ps of
              None \<Rightarrow> Inr []
            | Some cs \<Rightarrow>
                (case find (\<lambda>c. mimeType c = Some ''text/plain'' \<and> has_data (body c)) cs of
                   Some c \<Rightarrow> dec (payload_data (body c))
                 | None \<Rightarrow> recurse_two_phase dec cs)))"
| "recurse_two_phase dec [] = Inr []"
| "recurse_two_phase dec (c # cs) =
     (case extract_body_two_phase dec c of
        Inl e \<Rightarrow> Inl e
      | Inr b \<Rightarrow> if b \<noteq> [] then Inr b else recurse_two_phase dec cs)"

text \<open>
  What one direct child contributes to the loop of \<open>extract_body\<close>: the decoded payload
  of a plain-text child that carries one; otherwise, for a child that has a \<open>parts\<close> key,
  the result of the recursive call unless that is the empty string; otherwise nothing.
\<close>

definition child_result :: "(string \<Rightarrow> py_error + string) \<Rightarrow> part \<Rightarrow> (py_error + string) option" where
  "child_result dec c =
     (if mimeType c = Some ''text/plain'' \<and> has_data (body c) then Some (dec (payload_data (body c)))
      else if parts c \<noteq> None \<and> extract_body dec c \<noteq> Inr [] then Some (extract_body dec c)
      else None)"

text \<open>
  \<open>extract_attachment_info\<close>, lines 266 to 285. The closure \<open>recurse\<close> appends to the
  list \<open>attachments\<close> of the enclosing call; the list is passed and returned.
\<close>

record attachment =
  att_filename :: string
  att_mime_type :: string
  att_size :: int
  att_attachment_id :: "string option"

definition has_filename :: "part \<Rightarrow> bool" where
  "has_filename p = (case filename p of None \<Rightarrow> False | Some f \<Rightarrow> f \<noteq> [])"

definition attachment_of :: "part \<Rightarrow> attachment" where
  "attachment_of p =
     \<lparr> att_filename = (case filename p of None \<Rightarrow> [] | Some f \<Rightarrow> f),
       att_mime_type = (case mimeType p of None \<Rightarrow> [] | Some m \<Rightarrow> m),
       att_size = (case body p of None \<Rightarrow> 0
                     | Some b \<Rightarrow> (case body_size b of None \<Rightarrow> 0 | Some n \<Rightarrow> n)),
       att_attachment_id = (case body p of None \<Rightarrow> None | Some b \<Rightarrow> attachmentId b) \<rparr>"

fun recurse :: "part \<Rightarrow> attachment list \<Rightarrow> attachment list"
  and recurse_parts :: "part list \<Rightarrow> attachment list \<Rightarrow> attachment list"
where
  "recurse (Part mt fn b ps) attachments =
     (let attachments1 =
            (if has_filename (Part mt fn b ps)
             then attachments @ [attachment_of (Part mt fn b ps)] else attachments)
      in (case ps of None \<Rightarrow> attachments1 | Some cs \<Rightarrow> recurse_parts cs attachments1))"
| "recurse_parts [] attachments = attachments"
| "recurse_parts (p # ps) attachments = recurse_parts ps (recurse p attachments)"

definition extract_attachment_info :: "part \<Rightarrow> attachment list" where
  "extract_attachment_info payload = recurse payload []"

text \<open>
  The nodes of a tree in depth-first pre-order: a node, then the nodes of its children,
  child by child in their given order.
\<close>

fun preorder :: "part \<Rightarrow> part list"
  and preorder_parts :: "part list \<Rightarrow> part list"
where
  "preorder (Part mt fn b ps) =
     Part mt fn b ps # (case ps of None \<Rightarrow> [] | Some cs \<Rightarrow> preorder_parts cs)"
| "preorder_parts [] = []"
| "preorder_parts (c # cs) = preorder c @ preorder_parts cs"

subsection \<open>Sample messages\<close>

definition plain_dec :: "string \<Rightarrow> py_error + string" where
  "plain_dec s = Inr s"

definition leaf :: "string \<Rightarrow> string \<Rightarrow> part" where
  "leaf mt d = Part (Some mt) None (Some \<lparr> data = Some d, body_size = None, attachmentId = None \<rparr>) None"

definition container :: "string \<Rightarrow> part list \<Rightarrow> part" where
  "container mt cs = Part (Some mt) None None (Some cs)"

definition file_part :: "string \<Rightarrow> string \<Rightarrow> part list option \<Rightarrow> part" where
  "file_part name aid ps =
     Part (Some ''application/octet-stream'') (Some name)
          (Some \<lparr> data = None, body_size = Some 3, attachmentId = Some aid \<rparr>) ps"

definition nested_first :: part where
  "nested_first =
     container ''multipart/mixed''
       [container ''multipart/alternative'' [leaf ''text/plain'' ''A''], leaf ''text/plain'' ''B'']"

definition own_and_child :: part where
  "own_and_child =
     Part (Some ''multipart/mixed'') None
          (Some \<lparr> data = Some ''own'', body_size = None, attachmentId = None \<rparr>)
          (Some [leaf ''text/plain'' ''child''])"

definition html_only :: part where
  "html_only = leaf ''text/html'' ''<p>hi</p>''"

definition nested_files :: part where
  "nested_files =
     container ''multipart/mixed''
       [leaf ''text/plain'' ''hi'',
        file_part ''outer.eml'' ''a1'' (Some [file_part ''inner.pdf'' ''a2'' None]),
        file_part ''last.txt'' ''a3'' None]"

section \<open>Strings and dictionaries of Python\<close>

text \<open>
  A \<open>str\<close> is a \<open>string\<close>: a character is a code point below 256. \<open>str.lower\<close>
  moves the upper-case letters among them (\<open>A\<close> to \<open>Z\<close>, and U+00C0 to U+00DE without
  U+00D7) up by 32 and leaves the other characters as they are.
\<close>

definition lower_char :: "char \<Rightarrow> char" where
  "lower_char c =
     (let n = (of_char c :: nat)
      in if (65 \<le> n \<and> n \<le> 90) \<or> (192 \<le> n \<and> n \<le> 214) \<or> (216 \<le> n \<and> n \<le> 222)
         then char_of (n + 32) else c)"

definition lower :: "string \<Rightarrow> string" where
  "lower s = map lower_char s"

definition startswith :: "string \<Rightarrow> string \<Rightarrow> bool" where
  "startswith s p = (take (length p) s = p)"

text \<open>
  \<open>{h["name"]: h["value"] for h in headers}\<close>: a later header of the same name replaces
  an earlier one. \<open>dict_get m k d\<close> is \<open>m.get(k, d)\<close>.
\<close>

definition headers_dict :: "(string \<times> string) list \<Rightarrow> (string \<rightharpoonup> string)" where
  "headers_dict hs = fold (\<lambda>(n, v) m. m(n \<mapsto> v)) hs Map.empty"

definition dict_get :: "('k \<rightharpoonup> 'v) \<Rightarrow> 'k \<Rightarrow> 'v \<Rightarrow> 'v" where
  "dict_get m k d = (case m k of None \<Rightarrow> d | Some v \<Rightarrow> v)"

section \<open>Reply threading\<close>

text \<open>
  \<open>re.search(r'<(.+?)>', s)\<close>: the leftmost \<open><\<close> from which the lazy group matches, and
  the group. From a \<open><\<close> the group takes at least one character, none of them a newline
  (\<open>.\<close> does not match one), and stops before the first \<open>>\<close> that follows;
  \<open>angle_group\<close> holds the characters taken so far, last first.
\<close>

fun angle_group :: "string \<Rightarrow> string \<Rightarrow> string option" where
  "angle_group acc [] = None"
| "angle_group acc (c # cs) =
     (if acc \<noteq> [] \<and> c = CHR ''>'' then Some (rev acc)
      else if c = CHR 0x0A then None
      else angle_group (c # acc) cs)"

fun re_search_angle :: "string \<Rightarrow> string option" where
  "re_search_angle [] = None"
| "re_search_angle (c # cs) =
     (if c = CHR ''<'' then
        (case angle_group [] cs of Some g \<Rightarrow> Some g | None \<Rightarrow> re_search_angle cs)
      else re_search_angle cs)"

text \<open>
  A fetched message as far as the code reads it: \<open>msg["payload"]["headers"]\<close> (an empty
  list where either key is absent) and \<open>msg.get("threadId")\<close>.
\<close>

record raw_message =
  msg_headers :: "(string \<times> string) list"
  msg_threadId :: "string option"

record reply_info =
  r_to :: string
  r_subject :: string
  r_thread_id :: "string option"
  r_message_id :: string
  r_references :: string

text \<open>
  An outgoing message as \<open>create_message\<close> returns it: \<open>raw\<close>, the base64 text of
  the serialised MIME message, and the \<open>threadId\<close> field when there is one; with them
  what \<open>raw\<close> is the serialisation of: the headers \<open>create_message\<close> sets, in the order
  it sets them, whether the body is HTML, and the body.
\<close>

record outgoing =
  o_headers :: "(string \<times> string) list"
  o_html :: bool
  o_body :: string
  o_raw :: string
  o_threadId :: "string option"

text \<open>
  The calls to the remote mail service, in the order the client makes them: a send and
  a draft creation carry the message they are given.
\<close>

datatype mail_call = MessagesGet string | MessagesSend outgoing | DraftsCreate outgoing

text \<open>
  \<open>get_message_for_reply\<close>, lines 639 to 683. \<open>messages_get\<close> is the remote call
  \<open>service.users().messages().get(...).execute()\<close>; the call is recorded in the log.
\<close>

definition get_message_for_reply ::
  "(string \<Rightarrow> py_error + raw_message) \<Rightarrow> string \<Rightarrow> mail_call list
     \<Rightarrow> (py_error + reply_info) \<times> mail_call list" where
  "get_message_for_reply messages_get msg_id calls =
     (case messages_get msg_id of
        Inl e \<Rightarrow> (Inl e, calls @ [MessagesGet msg_id])
      | Inr msg \<Rightarrow>
          (let headers = headers_dict (msg_headers msg);
               original_from = dict_get headers ''From'' [];
               reply_to = (case re_search_angle original_from of
                             Some g \<Rightarrow> g | None \<Rightarrow> original_from);
               original_subject = dict_get headers ''Subject'' ''(no subject)'';
               subject = (if \<not> startswith (lower original_subject) ''re:''
                          then ''Re: '' @ original_subject else original_subject);
               message_id = dict_get headers ''Message-ID'' [];
               existing_refs = dict_get headers ''References'' [];
               references =
                 (if existing_refs \<noteq> [] \<and> message_id \<noteq> [] then existing_refs @ '' '' @ message_id
                  else if message_id \<noteq> [] then message_id
                  else [])
           in (Inr \<lparr> r_to = reply_to, r_subject = subject, r_thread_id = msg_threadId msg,
                     r_message_id = message_id, r_references = references \<rparr>,
               calls @ [MessagesGet msg_id])))"

text \<open>
  A subject that begins with \<open>Re:\<close> in any mix of upper and lower case.
\<close>

fun begins_with_re :: "string \<Rightarrow> bool" where
  "begins_with_re (a # b # c # _) =
     ((a = CHR ''R'' \<or> a = CHR ''r'') \<and> (b = CHR ''E'' \<or> b = CHR ''e'') \<and> c = CHR '':'')"
| "begins_with_re _ = False"

definition msg_with :: "(string \<times> string) list \<Rightarrow> string \<Rightarrow> py_error + raw_message" where
  "msg_with hs msg_id = Inr \<lparr> msg_headers = hs, msg_threadId = Some ''t1'' \<rparr>"

section \<open>Paths and the download of attachments\<close>

text \<open>\<open>s.split(sep)\<close> for a separator of one character.\<close>

fun split_on :: "char \<Rightarrow> string \<Rightarrow> string list" where
  "split_on sep [] = [[]]"
| "split_on sep (c # cs) =
     (if c = sep then [] # split_on sep cs
      else (case split_on sep cs of [] \<Rightarrow> [[c]] | x # xs \<Rightarrow> (c # x) # xs))"

text \<open>\<open>str(n)\<close> for a natural number: its decimal digits.\<close>

definition digit_char :: "nat \<Rightarrow> char" where
  "digit_char n = char_of (48 + n)"

fun str_nat :: "nat \<Rightarrow> string" where
  "str_nat n = (if n < 10 then [digit_char n] else str_nat (n div 10) @ [digit_char (n mod 10)])"

text \<open>
  \<open>pathlib\<close> on a POSIX system (Python 3.11): a path is a root (empty, \<open>/\<close>, or \<open>//\<close> for
  exactly two leading slashes) and the components between slashes, without the empty
  ones and the \<open>.\<close> ones. \<open>joinpath p q\<close> is \<open>p / q\<close>, \<open>path_str\<close> is \<open>str\<close>,
  \<open>path_name\<close>, \<open>path_stem\<close> and \<open>path_suffix\<close> are \<open>.name\<close>, \<open>.stem\<close> and \<open>.suffix\<close>.
\<close>

record pure_path =
  p_root :: string
  p_parts :: "string list"

definition path_root :: "string \<Rightarrow> string" where
  "path_root s =
     (if startswith s ''//'' \<and> \<not> startswith s ''///'' then ''//''
      else if startswith s ''/'' then ''/''
      else [])"

definition Path :: "string \<Rightarrow> pure_path" where
  "Path s = \<lparr> p_root = path_root s,
              p_parts = filter (\<lambda>c. c \<noteq> [] \<and> c \<noteq> ''.'') (split_on CHR ''/'' s) \<rparr>"

definition joinpath :: "pure_path \<Rightarrow> pure_path \<Rightarrow> pure_path" where
  "joinpath p q =
     (if p_root q \<noteq> [] then q else \<lparr> p_root = p_root p, p_parts = p_parts p @ p_parts q \<rparr>)"

fun join_sep :: "string list \<Rightarrow> string" where
  "join_sep [] = []"
| "join_sep [c] = c"
| "join_sep (c # cs) = c @ ''/'' @ join_sep cs"

definition path_str :: "pure_path \<Rightarrow> string" where
  "path_str p = (if p_root p = [] \<and> p_parts p = [] then ''.'' else p_root p @ join_sep (p_parts p))"

definition path_name :: "pure_path \<Rightarrow> string" where
  "path_name p = (if p_parts p = [] then [] else last (p_parts p))"

text \<open>\<open>s.rfind(c)\<close>: the index of the last \<open>c\<close> in \<open>s\<close>, and \<open>-1\<close> when there is none.\<close>

definition rfind :: "string \<Rightarrow> char \<Rightarrow> int" where
  "rfind s c =
     (if c \<in> set s then int (length s) - 1 - int (length (takeWhile (\<lambda>x. x \<noteq> c) (rev s))) else - 1)"

definition path_suffix :: "pure_path \<Rightarrow> string" where
  "path_suffix p =
     (let name = path_name p; i = rfind name CHR ''.''
      in if 0 < i \<and> i < int (length name) - 1 then drop (nat i) name else [])"

definition path_stem :: "pure_path \<Rightarrow> string" where
  "path_stem p =
     (let name = path_name p; i = rfind name CHR ''.''
      in if 0 < i \<and> i < int (length name) - 1 then take (nat i) name else name)"


text \<open>
  The path tried at the value \<open>counter\<close>:
  \<open>Path(output_dir) / f"{stem}_{counter}{suffix}"\<close>.
\<close>

definition numbered_path :: "string \<Rightarrow> string \<Rightarrow> nat \<Rightarrow> string" where
  "numbered_path output_dir fname counter =
     (let stem = path_stem (Path fname); suffix = path_suffix (Path fname)
      in path_str (joinpath (Path output_dir) (Path (stem @ ''_'' @ str_nat counter @ suffix))))"





subsection \<open>A sample file system\<close>








section \<open>Credentials\<close>

text \<open>
  \<open>str.strip()\<close>: without the white space at both ends. \<open>is_space\<close> is
  \<open>str.isspace\<close> on the code points below 256: 9 to 13, 28 to 32, U+0085 and U+00A0.
\<close>

definition is_space :: "char \<Rightarrow> bool" where
  "is_space c =
     (let n = (of_char c :: nat)
      in (9 \<le> n \<and> n \<le> 13) \<or> (28 \<le> n \<and> n \<le> 32) \<or> n = 133 \<or> n = 160)"

definition strip :: "string \<Rightarrow> string" where
  "strip s = rev (dropWhile is_space (rev (dropWhile is_space s)))"

text \<open>\<open>needle in s\<close> for strings.\<close>

fun contains :: "string \<Rightarrow> string \<Rightarrow> bool" where
  "contains [] needle = (needle = [])"
| "contains (c # cs) needle = (startswith (c # cs) needle \<or> contains cs needle)"

definition SCOPES_MAP :: "string \<rightharpoonup> string list" where
  "SCOPES_MAP =
     map_of
       [(''readonly'', [''https://www.googleapis.com/auth/gmail.readonly'']),
        (''modify'', [''https://www.googleapis.com/auth/gmail.readonly'',
                      ''https://www.googleapis.com/auth/gmail.modify'']),
        (''full'', [''https://mail.google.com/''])]"

definition DEFAULT_SCOPE :: string where
  "DEFAULT_SCOPE = ''modify''"

text \<open>
  A \<open>Credentials\<close> object of the OAuth library, as far as the code reads it. \<open>expired\<close>
  is the library's property at the time of the call; \<open>valid\<close> is its property
  \<open>token is not None and not expired\<close>.
\<close>

record creds =
  token :: "string option"
  refresh_token :: "string option"
  expired :: bool

definition valid :: "creds \<Rightarrow> bool" where
  "valid c = (token c \<noteq> None \<and> \<not> expired c)"

definition has_refresh_token :: "creds \<Rightarrow> bool" where
  "has_refresh_token c = (case refresh_token c of None \<Rightarrow> False | Some t \<Rightarrow> t \<noteq> [])"

text \<open>
  The persisted state under \<open>~/.gmail_credentials\<close>: whether the directory exists, the
  text of \<open>scope.txt\<close>, the credentials pickled in \<open>token.pickle\<close>, and whether
  \<open>credentials.json\<close> exists. A file that is absent is \<open>None\<close>.
\<close>

record store =
  credentials_dir :: bool
  scope_file :: "string option"
  token_file :: "creds option"
  client_secrets :: bool

definition get_current_scope :: "store \<Rightarrow> string" where
  "get_current_scope st = (case scope_file st of Some txt \<Rightarrow> strip txt | None \<Rightarrow> DEFAULT_SCOPE)"

text \<open>
  \<open>set_scope\<close>, lines 55 to 62. \<open>SCOPE_FILE.write_text\<close> opens the file for writing,
  which raises \<open>FileNotFoundError\<close> when the directory does not exist; \<open>set_scope\<close> does
  not create it.
\<close>

definition set_scope :: "string \<Rightarrow> store \<Rightarrow> (py_error + unit) \<times> store" where
  "set_scope scope st =
     (if SCOPES_MAP scope = None then (Inl ValueError, st)
      else if \<not> credentials_dir st then (Inl FileNotFoundError, st)
      else (Inr (), st\<lparr> scope_file := Some scope, token_file := None \<rparr>))"

text \<open>
  What \<open>get_credentials\<close> takes from outside the program: the result of
  \<open>creds.refresh(Request())\<close> (the refreshed credentials, or the exception), of
  \<open>flow.run_local_server\<close> and of \<open>flow.fetch_token\<close> for the scopes of the flow, and the
  line the operator types at \<open>input\<close>.
\<close>

record auth_env =
  refresh :: "creds \<Rightarrow> py_error + creds"
  run_local_server :: "string list \<Rightarrow> py_error + creds"
  user_input :: "py_error + string"
  fetch_token :: "string list \<Rightarrow> string \<Rightarrow> py_error + creds"

text \<open>The exchanges with the authorization service, in the order they are made.\<close>

datatype auth_event =
    Refresh
  | FlowCreated "string list"
  | LocalServer
  | FetchToken string

text \<open>
  Lines 156 to 160: create the directory if needed, write the token file, return the
  credentials.
\<close>

definition persist :: "creds \<Rightarrow> store \<Rightarrow> auth_event list
    \<Rightarrow> (py_error + creds option) \<times> store \<times> auth_event list" where
  "persist c st evs = (Inr (Some c), st\<lparr> credentials_dir := True, token_file := Some c \<rparr>, evs)"

text \<open>
  \<open>except Exception\<close> catches every exception of the model but \<open>SystemExit\<close>.
\<close>

definition is_Exception :: "py_error \<Rightarrow> bool" where
  "is_Exception e = (case e of SystemExit n \<Rightarrow> False | _ \<Rightarrow> True)"

text \<open>
  The full authorization, lines 79 to 154 (the \<open>else\<close> branch of \<open>get_credentials\<close>):
  without the client secrets the result is \<open>None\<close>; otherwise a flow is created for the
  scopes and run, through the pasted redirect URL when \<open>manual\<close> and through the local
  server otherwise. The instructions the manual flow prints are not modelled.
\<close>

definition full_authorization :: "auth_env \<Rightarrow> bool \<Rightarrow> string list \<Rightarrow> store \<Rightarrow> auth_event list
    \<Rightarrow> (py_error + creds option) \<times> store \<times> auth_event list" where
  "full_authorization env manual scopes st evs =
     (if \<not> client_secrets st then (Inr None, st, evs)
      else
        (let evs1 = evs @ [FlowCreated scopes] in
         if manual then
           (case user_input env of
              Inl e \<Rightarrow> (Inl e, st, evs1)
            | Inr line \<Rightarrow>
                (let redirect_url = strip line in
                 if redirect_url = [] then (Inr None, st, evs1)
                 else if \<not> contains redirect_url ''code='' then (Inr None, st, evs1)
                 else
                   (case fetch_token env scopes redirect_url of
                      Inl e \<Rightarrow>
                        if is_Exception e then (Inr None, st, evs1 @ [FetchToken redirect_url])
                        else (Inl e, st, evs1 @ [FetchToken redirect_url])
                    | Inr c \<Rightarrow> persist c st (evs1 @ [FetchToken redirect_url]))))
         else
           (case run_local_server env scopes of
              Inl e \<Rightarrow> (Inl e, st, evs1 @ [LocalServer])
            | Inr c \<Rightarrow> persist c st (evs1 @ [LocalServer]))))"

text \<open>\<open>get_credentials\<close>, lines 65 to 160.\<close>

definition get_credentials :: "auth_env \<Rightarrow> bool \<Rightarrow> store \<Rightarrow> auth_event list
    \<Rightarrow> (py_error + creds option) \<times> store \<times> auth_event list" where
  "get_credentials env manual st evs =
     (case SCOPES_MAP (get_current_scope st) of
        None \<Rightarrow> (Inl KeyError, st, evs)
      | Some scopes \<Rightarrow>
          (case token_file st of
             Some c \<Rightarrow>
               if valid c then (Inr (Some c), st, evs)
               else if expired c \<and> has_refresh_token c then
                 (case refresh env c of
                    Inl e \<Rightarrow> (Inl e, st, evs @ [Refresh])
                  | Inr c' \<Rightarrow> persist c' st (evs @ [Refresh]))
               else full_authorization env manual scopes st evs
           | None \<Rightarrow> full_authorization env manual scopes st evs))"

section \<open>Sending, drafting and replying\<close>

text \<open>
  A regular expression and its matcher by derivatives; \<open>Sym P\<close> is one character of the
  class \<open>P\<close>.
\<close>

datatype rexp = Zero | One | Sym "char \<Rightarrow> bool" | Alt rexp rexp | Seq rexp rexp | Star rexp

fun nullable :: "rexp \<Rightarrow> bool" where
  "nullable Zero = False"
| "nullable One = True"
| "nullable (Sym P) = False"
| "nullable (Alt r s) = (nullable r \<or> nullable s)"
| "nullable (Seq r s) = (nullable r \<and> nullable s)"
| "nullable (Star r) = True"

fun deriv :: "char \<Rightarrow> rexp \<Rightarrow> rexp" where
  "deriv c Zero = Zero"
| "deriv c One = Zero"
| "deriv c (Sym P) = (if P c then One else Zero)"
| "deriv c (Alt r s) = Alt (deriv c r) (deriv c s)"
| "deriv c (Seq r s) =
     (if nullable r then Alt (Seq (deriv c r) s) (deriv c s) else Seq (deriv c r) s)"
| "deriv c (Star r) = Seq (deriv c r) (Star r)"

fun matches :: "rexp \<Rightarrow> string \<Rightarrow> bool" where
  "matches r [] = nullable r"
| "matches r (c # cs) = matches (deriv c r) cs"

definition in_range :: "char \<Rightarrow> char \<Rightarrow> char \<Rightarrow> bool" where
  "in_range lo hi c = ((of_char lo :: nat) \<le> of_char c \<and> (of_char c :: nat) \<le> of_char hi)"

definition is_alpha :: "char \<Rightarrow> bool" where
  "is_alpha c = (in_range CHR ''a'' CHR ''z'' c \<or> in_range CHR ''A'' CHR ''Z'' c)"

definition is_alnum :: "char \<Rightarrow> bool" where
  "is_alnum c = (is_alpha c \<or> in_range CHR ''0'' CHR ''9'' c)"

definition plus :: "rexp \<Rightarrow> rexp" where
  "plus r = Seq r (Star r)"

text \<open>
  The pattern of \<open>validate_email\<close>,
  \<open>^[a-zA-Z0-9._%+-]+@[a-zA-Z0-9.-]+\.[a-zA-Z]{2,}$\<close>; under \<open>re.match\<close> the final \<open>$\<close>
  is the end of the string or the position before a newline that ends it.
\<close>

definition email_pattern :: rexp where
  "email_pattern =
     Seq (plus (Sym (\<lambda>c. is_alnum c \<or> c \<in> set ''._%+-'')))
      (Seq (Sym (\<lambda>c. c = CHR ''@''))
        (Seq (plus (Sym (\<lambda>c. is_alnum c \<or> c \<in> set ''.-'')))
          (Seq (Sym (\<lambda>c. c = CHR ''.''))
            (Seq (Sym is_alpha) (Seq (Sym is_alpha)
              (Seq (Star (Sym is_alpha)) (Alt One (Sym (\<lambda>c. c = CHR 0x0A)))))))))"

definition validate_email :: "string \<Rightarrow> bool" where
  "validate_email email = matches email_pattern (strip email)"

text \<open>
  \<open>create_message\<close>, lines 574 to 636; \<open>from_addr\<close> has its default \<open>me\<close> at every call.
  A string argument is set as a header when it is not empty. \<open>encode\<close> is the email
  library at work: building the MIME message (\<open>multipart/alternative\<close> around one HTML
  part, or one plain part), \<open>message.as_bytes()\<close> and the base64 encoding. It gives the
  \<open>raw\<close> text or raises (\<open>HeaderParseError\<close> for a header value that holds a line
  looking like a header), and then \<open>create_message\<close> raises.
\<close>

definition truthy :: "string option \<Rightarrow> bool" where
  "truthy s = (case s of None \<Rightarrow> False | Some t \<Rightarrow> t \<noteq> [])"

definition or_empty :: "string option \<Rightarrow> string" where
  "or_empty s = (case s of None \<Rightarrow> [] | Some t \<Rightarrow> t)"

type_synonym encoder = "(string \<times> string) list \<Rightarrow> bool \<Rightarrow> string \<Rightarrow> py_error + string"

definition create_message ::
  "encoder \<Rightarrow> string \<Rightarrow> string \<Rightarrow> string \<Rightarrow> string \<Rightarrow> string \<Rightarrow> bool \<Rightarrow> string \<Rightarrow> string
     \<Rightarrow> string option \<Rightarrow> py_error + outgoing" where
  "create_message encode to subject body_text cc bcc html in_reply_to references thread_id =
     (let headers =
            [(''To'', to), (''From'', ''me''), (''Subject'', subject)]
            @ (if cc \<noteq> [] then [(''Cc'', cc)] else [])
            @ (if bcc \<noteq> [] then [(''Bcc'', bcc)] else [])
            @ (if in_reply_to \<noteq> [] then [(''In-Reply-To'', in_reply_to)] else [])
            @ (if references \<noteq> [] then [(''References'', references)] else [])
      in case encode headers html body_text of
           Inl e \<Rightarrow> Inl e
         | Inr raw_message \<Rightarrow>
             Inr \<lparr> o_headers = headers, o_html = html, o_body = body_text, o_raw = raw_message,
                   o_threadId = (if truthy thread_id then thread_id else None) \<rparr>)"

text \<open>
  The remote mail service, what each call returns or raises: \<open>messages().get\<close>,
  \<open>messages().send\<close> and \<open>drafts().create\<close>.
\<close>

record mail_service =
  get_message :: "string \<Rightarrow> py_error + raw_message"
  send_message :: "outgoing \<Rightarrow> py_error + unit"
  create_draft :: "outgoing \<Rightarrow> py_error + unit"

text \<open>
  The line a command prints before \<open>sys.exit(1)\<close>: \<open>Not authenticated. ...\<close>,
  \<open>Error: --to is required\<close>, \<open>Error: Invalid email address: ...\<close>,
  \<open>Error: Invalid CC email address: ...\<close>, \<open>Error: Invalid BCC email address: ...\<close>,
  \<open>Error: --subject is required\<close>, \<open>Error: --body is required\<close>,
  \<open>Error: message_id is required\<close> and \<open>Gmail API error: ...\<close>. The report of a
  success is not modelled.
\<close>

datatype cli_error =
    NotAuthenticated
  | ToRequired
  | InvalidEmail string
  | InvalidCc string
  | InvalidBcc string
  | SubjectRequired
  | BodyRequired
  | MessageIdRequired
  | GmailApiError

text \<open>
  The state a command runs in: the persisted state, the exchanges with the authorization
  service and the calls to the mail service so far, and the error lines printed.
\<close>

record world =
  w_store :: store
  w_auth :: "auth_event list"
  w_calls :: "mail_call list"
  w_printed :: "cli_error list"

definition exit_with :: "cli_error \<Rightarrow> world \<Rightarrow> (py_error + unit) \<times> world" where
  "exit_with err w = (Inl (SystemExit 1), w\<lparr> w_printed := w_printed w @ [err] \<rparr>)"

text \<open>
  The arguments of \<open>send\<close> and \<open>draft\<close> (\<open>--cc\<close> and \<open>--bcc\<close> are \<open>None\<close> when not given)
  and of \<open>reply\<close>. The \<open>--json\<close> switch only selects how a success is reported.
\<close>

record send_args =
  a_to :: string
  a_subject :: string
  a_body :: string
  a_cc :: "string option"
  a_bcc :: "string option"
  a_html :: bool

record reply_args =
  ra_message_id :: string
  ra_body :: string
  ra_html :: bool

text \<open>
  The checks of \<open>cmd_send\<close> and \<open>cmd_draft\<close>, lines 693 to 721 and 764 to 792, in their
  order: the first that fails gives the error line; \<open>None\<close> when all pass.
\<close>

definition first_invalid :: "string option \<Rightarrow> string option" where
  "first_invalid field =
     (if truthy field then find (\<lambda>email. \<not> validate_email email) (split_on CHR '','' (or_empty field))
      else None)"

definition validate_send_args :: "send_args \<Rightarrow> cli_error option" where
  "validate_send_args args =
     (if a_to args = [] then Some ToRequired
      else if \<not> validate_email (a_to args) then Some (InvalidEmail (a_to args))
      else (case first_invalid (a_cc args) of
              Some email \<Rightarrow> Some (InvalidCc (strip email))
            | None \<Rightarrow>
               (case first_invalid (a_bcc args) of
                  Some email \<Rightarrow> Some (InvalidBcc (strip email))
                | None \<Rightarrow>
                    if a_subject args = [] then Some SubjectRequired
                    else if a_body args = [] then Some BodyRequired
                    else None)))"

text \<open>
  A remote call inside \<open>try: ... except HttpError\<close>: an \<open>HttpError\<close> is printed and the
  command exits with status 1; any other exception leaves the command as it is.
\<close>

definition api_failure :: "py_error \<Rightarrow> world \<Rightarrow> (py_error + unit) \<times> world" where
  "api_failure e w = (if e = HttpError then exit_with GmailApiError w else (Inl e, w))"

text \<open>
  The start of every command, \<open>creds = get_credentials()\<close> and the exit when there are
  none: the credentials when there are some, the exit or the exception otherwise.
\<close>

definition authenticate :: "auth_env \<Rightarrow> world \<Rightarrow> ((py_error + unit) + creds) \<times> world" where
  "authenticate env w =
     (case get_credentials env False (w_store w) (w_auth w) of
        (r, st, evs) \<Rightarrow>
          (let w1 = w\<lparr> w_store := st, w_auth := evs \<rparr> in
           case r of
             Inl e \<Rightarrow> (Inl (Inl e), w1)
           | Inr None \<Rightarrow> (Inl (fst (exit_with NotAuthenticated w1)), snd (exit_with NotAuthenticated w1))
           | Inr (Some c) \<Rightarrow> (Inr c, w1)))"

text \<open>
  \<open>cmd_send\<close>, lines 686 to 754. \<open>create_message\<close> and the remote call stand in one
  \<open>try\<close>: an exception of either goes through \<open>api_failure\<close>.
\<close>

definition cmd_send ::
  "auth_env \<Rightarrow> encoder \<Rightarrow> mail_service \<Rightarrow> send_args \<Rightarrow> world \<Rightarrow> (py_error + unit) \<times> world" where
  "cmd_send env encode service args w =
     (case authenticate env w of
        (Inl stop, w1) \<Rightarrow> (stop, w1)
      | (Inr c, w1) \<Rightarrow>
          (case validate_send_args args of
             Some err \<Rightarrow> exit_with err w1
           | None \<Rightarrow>
               (case create_message encode (a_to args) (a_subject args) (a_body args)
                       (or_empty (a_cc args)) (or_empty (a_bcc args)) (a_html args)
                       [] [] (Some []) of
                  Inl e \<Rightarrow> api_failure e w1
                | Inr message \<Rightarrow>
                    (let w2 = w1\<lparr> w_calls := w_calls w1 @ [MessagesSend message] \<rparr>
                     in case send_message service message of
                          Inl e \<Rightarrow> api_failure e w2
                        | Inr u \<Rightarrow> (Inr (), w2)))))"

text \<open>\<open>cmd_draft\<close>, lines 757 to 826.\<close>

definition cmd_draft ::
  "auth_env \<Rightarrow> encoder \<Rightarrow> mail_service \<Rightarrow> send_args \<Rightarrow> world \<Rightarrow> (py_error + unit) \<times> world" where
  "cmd_draft env encode service args w =
     (case authenticate env w of
        (Inl stop, w1) \<Rightarrow> (stop, w1)
      | (Inr c, w1) \<Rightarrow>
          (case validate_send_args args of
             Some err \<Rightarrow> exit_with err w1
           | None \<Rightarrow>
               (case create_message encode (a_to args) (a_subject args) (a_body args)
                       (or_empty (a_cc args)) (or_empty (a_bcc args)) (a_html args)
                       [] [] (Some []) of
                  Inl e \<Rightarrow> api_failure e w1
                | Inr message \<Rightarrow>
                    (let w2 = w1\<lparr> w_calls := w_calls w1 @ [DraftsCreate message] \<rparr>
                     in case create_draft service message of
                          Inl e \<Rightarrow> api_failure e w2
                        | Inr u \<Rightarrow> (Inr (), w2)))))"

text \<open>
  \<open>cmd_reply\<close>, lines 829 to 875. The recipient is \<open>original["to"]\<close>, taken from the
  fetched message; it is passed to \<open>create_message\<close> as it is.
\<close>

definition cmd_reply ::
  "auth_env \<Rightarrow> encoder \<Rightarrow> mail_service \<Rightarrow> reply_args \<Rightarrow> world \<Rightarrow> (py_error + unit) \<times> world" where
  "cmd_reply env encode service args w =
     (case authenticate env w of
        (Inl stop, w1) \<Rightarrow> (stop, w1)
      | (Inr c, w1) \<Rightarrow>
          if ra_message_id args = [] then exit_with MessageIdRequired w1
          else if ra_body args = [] then exit_with BodyRequired w1
          else
            (case get_message_for_reply (get_message service) (ra_message_id args) (w_calls w1) of
               (Inl e, calls) \<Rightarrow> api_failure e (w1\<lparr> w_calls := calls \<rparr>)
             | (Inr original, calls) \<Rightarrow>
                 (let w2 = w1\<lparr> w_calls := calls \<rparr>
                  in case create_message encode (r_to original) (r_subject original) (ra_body args)
                          [] [] (ra_html args)
                          (r_message_id original) (r_references original)
                          (r_thread_id original) of
                       Inl e \<Rightarrow> api_failure e w2
                     | Inr message \<Rightarrow>
                         (let w3 = w2\<lparr> w_calls := calls @ [MessagesSend message] \<rparr>
                          in case send_message service message of
                               Inl e \<Rightarrow> api_failure e w3
                             | Inr u \<Rightarrow> (Inr (), w3)))))"

subsection \<open>Sample states\<close>

definition expired_creds :: creds where
  "expired_creds = \<lparr> token = Some ''old'', refresh_token = Some ''r1'', expired = True \<rparr>"

definition fresh_creds :: creds where
  "fresh_creds = \<lparr> token = Some ''new'', refresh_token = Some ''r1'', expired = False \<rparr>"

definition store_expired :: store where
  "store_expired = \<lparr> credentials_dir = True, scope_file = Some ''modify'',
                      token_file = Some expired_creds, client_secrets = True \<rparr>"

definition store_valid :: store where
  "store_valid = \<lparr> credentials_dir = True, scope_file = None,
                    token_file = Some fresh_creds, client_secrets = True \<rparr>"

definition store_empty :: store where
  "store_empty = \<lparr> credentials_dir = False, scope_file = None,
                    token_file = None, client_secrets = False \<rparr>"

definition env_refresh_fails :: auth_env where
  "env_refresh_fails = \<lparr> refresh = (\<lambda>c. Inl RefreshError),
       run_local_server = (\<lambda>scopes. Inr fresh_creds),
       user_input = Inr ''http://localhost:8080/?state=s&code=4/0'',
       fetch_token = (\<lambda>scopes url. Inr fresh_creds) \<rparr>"

definition env_refresh_ok :: auth_env where
  "env_refresh_ok = env_refresh_fails \<lparr> refresh := (\<lambda>c. Inr fresh_creds) \<rparr>"

lemmas store_defs = expired_creds_def fresh_creds_def store_expired_def store_valid_def store_empty_def
  env_refresh_fails_def env_refresh_ok_def

text \<open>
  A recipient that \<open>validate_email\<close> refuses: the \<open>--to\<close> address, or an entry of a
  non-empty \<open>--cc\<close> or \<open>--bcc\<close> list; and the error lines that report one.
\<close>

definition malformed_recipient :: "send_args \<Rightarrow> bool" where
  "malformed_recipient args =
     (\<not> validate_email (a_to args) \<or> first_invalid (a_cc args) \<noteq> None
      \<or> first_invalid (a_bcc args) \<noteq> None)"

fun is_recipient_error :: "cli_error \<Rightarrow> bool" where
  "is_recipient_error ToRequired = True"
| "is_recipient_error (InvalidEmail e) = True"
| "is_recipient_error (InvalidCc e) = True"
| "is_recipient_error (InvalidBcc e) = True"
| "is_recipient_error _ = False"

definition service_ok :: "(string \<times> string) list \<Rightarrow> mail_service" where
  "service_ok hs = \<lparr> get_message = msg_with hs, send_message = (\<lambda>m. Inr ()),
                      create_draft = (\<lambda>m. Inr ()) \<rparr>"

definition encode_ok :: encoder where
  "encode_ok headers html body_text = Inr ''raw''"

definition world_empty :: world where
  "world_empty = \<lparr> w_store = store_empty, w_auth = [], w_calls = [], w_printed = [] \<rparr>"

definition world_valid :: world where
  "world_valid = \<lparr> w_store = store_valid, w_auth = [], w_calls = [], w_printed = [] \<rparr>"

definition bad_to_args :: send_args where
  "bad_to_args = \<lparr> a_to = ''not-an-email'', a_subject = ''hi'', a_body = ''text'',
                    a_cc = None, a_bcc = None, a_html = False \<rparr>"

definition some_reply_args :: reply_args where
  "some_reply_args = \<lparr> ra_message_id = ''m1'', ra_body = ''text'', ra_html = False \<rparr>"

definition bad_sender_headers :: "(string \<times> string) list" where
  "bad_sender_headers = [(''From'', ''not-an-email''), (''Subject'', ''hi''), (''Message-ID'', ''<c>'')]"

section \<open>Properties of message extraction\<close>

lemma recurse_append:
  "recurse p acc = acc @ map attachment_of (filter has_filename (preorder p))"
  "recurse_parts ps acc = acc @ map attachment_of (filter has_filename (preorder_parts ps))"
  by (induction p and ps arbitrary: acc and acc rule: preorder_preorder_parts.induct)
     (simp_all add: Let_def split: option.splits)

lemma extract_body_parts_map_filter:
  "extract_body_parts dec cs =
     (case List.map_filter (child_result dec) cs of [] \<Rightarrow> Inr [] | r # _ \<Rightarrow> r)"
  by (induction cs) (auto simp: List.map_filter_simps child_result_def split: sum.splits)

lemmas sample_defs =
  leaf_def container_def file_part_def plain_dec_def has_data_def payload_data_def
  has_filename_def attachment_of_def

text \<open>
  C1, as the code has it. The specification reads \<open>extract_body\<close> as two passes over the
  children (all direct plain-text children first, recursion only afterwards). The code
  makes one pass: for a root without a payload of its own, the children are visited once,
  in their given order, and the first child that contributes decides the result, where a
  child contributes its decoded payload when it is plain text with a payload, and
  otherwise, when it has a \<open>parts\<close> key, the non-empty result of the recursive call on
  it. When no child contributes, or the root has no \<open>parts\<close> key, the result is the
  empty string.
\<close>

theorem extract_body_children_in_order:
  "\<not> has_data (body p) \<Longrightarrow>
     extract_body dec p =
       (case parts p of
          None \<Rightarrow> Inr []
        | Some cs \<Rightarrow> (case List.map_filter (child_result dec) cs of [] \<Rightarrow> Inr [] | r # _ \<Rightarrow> r))"
  by (cases p) (simp add: extract_body_parts_map_filter split: option.splits)

theorem extract_body_children_in_order_witness:
  "\<not> has_data (body nested_first) \<and> extract_body plain_dec nested_first = Inr ''A''"
proof -
  have h: "\<not> has_data (body nested_first)"
    by (simp add: nested_first_def sample_defs)
  have "extract_body plain_dec nested_first =
          (case parts nested_first of
             None \<Rightarrow> Inr []
           | Some cs \<Rightarrow> (case List.map_filter (child_result plain_dec) cs of [] \<Rightarrow> Inr [] | r # _ \<Rightarrow> r))"
    by (rule extract_body_children_in_order [OF h])
  then show ?thesis
    using h by (simp add: nested_first_def sample_defs child_result_def List.map_filter_simps)
qed

text \<open>
  The two-pass reading of C1 fails on a message whose first child is a container holding
  a plain-text part and whose second child is itself a plain-text part: the code returns
  the nested text of the first child, the two-pass reading the text of the second.
\<close>

theorem extract_body_two_phase_counterexample:
  "extract_body plain_dec nested_first = Inr ''A''
   \<and> extract_body_two_phase plain_dec nested_first = Inr ''B''"
  by (simp add: nested_first_def sample_defs)

text \<open>
  C4: \<open>extract_attachment_info\<close> returns one descriptor for each node that has a
  non-empty filename, so exactly N of them for a tree with N such nodes, in depth-first
  pre-order (a node before its children, the children in their given order); a node
  with a non-empty filename and children is recorded and its children are traversed.
\<close>

theorem extract_attachment_info_preorder:
  "extract_attachment_info p = map attachment_of (filter has_filename (preorder p))
   \<and> length (extract_attachment_info p) = length (filter has_filename (preorder p))
   \<and> (has_filename (Part mt fn b (Some cs)) \<longrightarrow>
        extract_attachment_info (Part mt fn b (Some cs)) =
          attachment_of (Part mt fn b (Some cs)) # concat (map extract_attachment_info cs))"
proof -
  have e: "extract_attachment_info q = map attachment_of (filter has_filename (preorder q))" for q
    by (simp add: extract_attachment_info_def recurse_append)
  have c: "map attachment_of (filter has_filename (preorder_parts ds)) =
           concat (map extract_attachment_info ds)" for ds
    by (induction ds) (simp_all add: e)
  show ?thesis
    by (simp add: e c)
qed

theorem extract_attachment_info_preorder_witness:
  "map att_filename (extract_attachment_info nested_files) = [''outer.eml'', ''inner.pdf'', ''last.txt'']
   \<and> length (filter has_filename (preorder nested_files)) = 3
   \<and> has_filename (file_part ''outer.eml'' ''a1'' (Some [file_part ''inner.pdf'' ''a2'' None]))
   \<and> map att_filename
        (extract_attachment_info (file_part ''outer.eml'' ''a1'' (Some [file_part ''inner.pdf'' ''a2'' None])))
      = [''outer.eml'', ''inner.pdf'']"
proof -
  have t: "extract_attachment_info nested_files =
             map attachment_of (filter has_filename (preorder nested_files))"
    using extract_attachment_info_preorder [of nested_files] by blast
  have n: "filter has_filename (preorder nested_files) =
             [file_part ''outer.eml'' ''a1'' (Some [file_part ''inner.pdf'' ''a2'' None]),
              file_part ''inner.pdf'' ''a2'' None, file_part ''last.txt'' ''a3'' None]"
    by (simp add: nested_files_def leaf_def container_def file_part_def has_filename_def)
  have o: "extract_attachment_info (file_part ''outer.eml'' ''a1'' (Some [file_part ''inner.pdf'' ''a2'' None])) =
             map attachment_of (filter has_filename
               (preorder (file_part ''outer.eml'' ''a1'' (Some [file_part ''inner.pdf'' ''a2'' None]))))"
    using extract_attachment_info_preorder
      [of "file_part ''outer.eml'' ''a1'' (Some [file_part ''inner.pdf'' ''a2'' None])"] by blast
  show ?thesis
    unfolding t n o by (simp add: file_part_def has_filename_def attachment_of_def)
qed

text \<open>
  C5: a node that carries an inline body payload (a non-empty \<open>data\<close> string in its
  \<open>body\<close>) yields exactly the decoding of that payload, whatever its children hold:
  the children are not looked at.
\<close>

theorem extract_body_own_payload:
  "has_data (body p) \<Longrightarrow> extract_body dec p = dec (payload_data (body p))"
  by (cases p) simp

theorem extract_body_own_payload_witness:
  "has_data (body own_and_child)
   \<and> parts own_and_child = Some [leaf ''text/plain'' ''child'']
   \<and> extract_body plain_dec own_and_child = Inr ''own''"
proof -
  have h: "has_data (body own_and_child)"
    by (simp add: own_and_child_def sample_defs)
  have "extract_body plain_dec own_and_child = plain_dec (payload_data (body own_and_child))"
    by (rule extract_body_own_payload [OF h])
  then show ?thesis
    using h by (simp add: own_and_child_def sample_defs)
qed

text \<open>
  C10: the decoding of a node's own payload is returned for every mime-type of the node:
  the result does not depend on the mime-type, so a message whose only part is
  \<open>text/html\<close> yields the decoded HTML.
\<close>

theorem extract_body_any_mime_type:
  "has_data b \<Longrightarrow>
     extract_body dec (Part mt fn b ps) = dec (payload_data b)
     \<and> extract_body dec (Part mt' fn b ps) = extract_body dec (Part mt fn b ps)"
  by simp

theorem extract_body_any_mime_type_witness:
  "has_data (body html_only) \<and> mimeType html_only = Some ''text/html''
   \<and> extract_body plain_dec html_only = Inr ''<p>hi</p>''"
proof -
  have h: "has_data (Some \<lparr> data = Some ''<p>hi</p>'', body_size = None, attachmentId = None \<rparr>)"
    by (simp add: sample_defs)
  from extract_body_any_mime_type [OF h, of plain_dec "Some ''text/html''" None None "Some ''text/html''"]
  show ?thesis
    using h by (simp add: html_only_def sample_defs)
qed

section \<open>Properties of the reply derivation\<close>

lemma of_char_lower_char:
  "(of_char (lower_char a) :: nat) =
     (if (65 \<le> (of_char a :: nat) \<and> (of_char a :: nat) \<le> 90)
         \<or> (192 \<le> (of_char a :: nat) \<and> (of_char a :: nat) \<le> 214)
         \<or> (216 \<le> (of_char a :: nat) \<and> (of_char a :: nat) \<le> 222)
      then of_char a + 32 else of_char a)"
  by (simp add: lower_char_def Let_def of_char_of)

lemma char_eq_nat: "(a = b) = ((of_char a :: nat) = of_char b)"
  by simp

lemma lower_char_r: "lower_char a = CHR ''r'' \<longleftrightarrow> a = CHR ''R'' \<or> a = CHR ''r''"
  unfolding char_eq_nat [of _ "CHR ''r''"] char_eq_nat [of _ "CHR ''R''"] of_char_lower_char
  by auto

lemma lower_char_e: "lower_char a = CHR ''e'' \<longleftrightarrow> a = CHR ''E'' \<or> a = CHR ''e''"
  unfolding char_eq_nat [of _ "CHR ''e''"] char_eq_nat [of _ "CHR ''E''"] of_char_lower_char
  by auto

lemma lower_char_colon: "lower_char a = CHR '':'' \<longleftrightarrow> a = CHR '':''"
  unfolding char_eq_nat [of _ "CHR '':''"] of_char_lower_char
  by auto

lemma startswith_re: "startswith (lower s) ''re:'' = begins_with_re s"
proof (cases s)
  case Nil
  then show ?thesis by (simp add: startswith_def lower_def)
next
  case (Cons a s1)
  show ?thesis
  proof (cases s1)
    case Nil
    with Cons show ?thesis by (simp add: startswith_def lower_def)
  next
    case (Cons b s2)
    note c2 = this
    show ?thesis
    proof (cases s2)
      case Nil
      with c2 \<open>s = a # s1\<close> show ?thesis by (simp add: startswith_def lower_def)
    next
      case (Cons c s3)
      with c2 \<open>s = a # s1\<close> show ?thesis
        by (simp add: startswith_def lower_def lower_char_r lower_char_e lower_char_colon)
    qed
  qed
qed

lemma get_message_for_reply_subject:
  assumes "messages_get mid = Inr msg"
  shows "\<exists>info. fst (get_message_for_reply messages_get mid calls) = Inr info
           \<and> r_subject info =
               (let s = dict_get (headers_dict (msg_headers msg)) ''Subject'' ''(no subject)''
                in if begins_with_re s then s else ''Re: '' @ s)"
  using assms by (simp add: get_message_for_reply_def Let_def startswith_re)

text \<open>
  C6: the references chain is the prior References value, one space and the Message-ID
  when both headers have a value; the Message-ID alone when only it has one; and empty
  when the Message-ID has none (with or without prior References). A header has a value
  when the dictionary of headers maps its name to a non-empty string.
\<close>

theorem reply_references_chain:
  assumes "messages_get mid = Inr msg"
    and "r = dict_get (headers_dict (msg_headers msg)) ''References'' []"
    and "m = dict_get (headers_dict (msg_headers msg)) ''Message-ID'' []"
  shows "\<exists>info. fst (get_message_for_reply messages_get mid calls) = Inr info
           \<and> (r \<noteq> [] \<and> m \<noteq> [] \<longrightarrow> r_references info = r @ '' '' @ m)
           \<and> (r = [] \<and> m \<noteq> [] \<longrightarrow> r_references info = m)
           \<and> (m = [] \<longrightarrow> r_references info = [])"
  using assms by (simp add: get_message_for_reply_def Let_def)

theorem reply_references_chain_witness:
  "(\<exists>info. fst (get_message_for_reply
                  (msg_with [(''References'', ''<a> <b>''), (''Message-ID'', ''<c>'')]) ''m1'' []) = Inr info
           \<and> r_references info = ''<a> <b> <c>'')
   \<and> (\<exists>info. fst (get_message_for_reply (msg_with [(''Message-ID'', ''<c>'')]) ''m1'' []) = Inr info
           \<and> r_references info = ''<c>'')
   \<and> (\<exists>info. fst (get_message_for_reply (msg_with [(''Subject'', ''hi'')]) ''m1'' []) = Inr info
           \<and> r_references info = [])"
proof -
  have a: "\<exists>info. fst (get_message_for_reply
                  (msg_with [(''References'', ''<a> <b>''), (''Message-ID'', ''<c>'')]) ''m1'' []) = Inr info
           \<and> r_references info = ''<a> <b> <c>''"
    using reply_references_chain
      [of "msg_with [(''References'', ''<a> <b>''), (''Message-ID'', ''<c>'')]" "''m1''"
          "\<lparr> msg_headers = [(''References'', ''<a> <b>''), (''Message-ID'', ''<c>'')],
             msg_threadId = Some ''t1'' \<rparr>" "''<a> <b>''" "''<c>''" "[]"]
    by (simp add: msg_with_def headers_dict_def dict_get_def)
  have b: "\<exists>info. fst (get_message_for_reply (msg_with [(''Message-ID'', ''<c>'')]) ''m1'' []) = Inr info
           \<and> r_references info = ''<c>''"
    using reply_references_chain
      [of "msg_with [(''Message-ID'', ''<c>'')]" "''m1''"
          "\<lparr> msg_headers = [(''Message-ID'', ''<c>'')], msg_threadId = Some ''t1'' \<rparr>"
          "[]" "''<c>''" "[]"]
    by (simp add: msg_with_def headers_dict_def dict_get_def)
  have c: "\<exists>info. fst (get_message_for_reply (msg_with [(''Subject'', ''hi'')]) ''m1'' []) = Inr info
           \<and> r_references info = []"
    using reply_references_chain
      [of "msg_with [(''Subject'', ''hi'')]" "''m1''"
          "\<lparr> msg_headers = [(''Subject'', ''hi'')], msg_threadId = Some ''t1'' \<rparr>"
          "[]" "[]" "[]"]
    by (simp add: msg_with_def headers_dict_def dict_get_def)
  from a b c show ?thesis by blast
qed

text \<open>
  C7: the reply subject is the original subject unchanged when that begins with \<open>Re:\<close> in
  any letter case, and the original subject after \<open>Re: \<close> otherwise. The result always
  begins with \<open>Re:\<close>, so a reply to a message whose subject is that result keeps it as
  it is: the prefix is applied at most once. (A message without a Subject header has the
  original subject \<open>(no subject)\<close>.)
\<close>

theorem reply_subject_re_once:
  assumes "messages_get mid = Inr msg"
    and "s = dict_get (headers_dict (msg_headers msg)) ''Subject'' ''(no subject)''"
    and "messages_get' mid' = Inr msg'"
    and "fst (get_message_for_reply messages_get mid calls) = Inr info"
    and "dict_get (headers_dict (msg_headers msg')) ''Subject'' ''(no subject)'' = r_subject info"
  shows "r_subject info = (if begins_with_re s then s else ''Re: '' @ s)
         \<and> begins_with_re (r_subject info)
         \<and> (\<exists>info'. fst (get_message_for_reply messages_get' mid' calls') = Inr info'
                \<and> r_subject info' = r_subject info)"
proof -
  from get_message_for_reply_subject [of messages_get mid msg calls, OF assms(1)] assms(2,4)
  have 1: "r_subject info = (if begins_with_re s then s else ''Re: '' @ s)"
    by (auto simp: Let_def)
  then have 2: "begins_with_re (r_subject info)"
    by simp
  from get_message_for_reply_subject [of messages_get' mid' msg' calls', OF assms(3)] assms(5) 2
  have 3: "\<exists>info'. fst (get_message_for_reply messages_get' mid' calls') = Inr info'
                \<and> r_subject info' = r_subject info"
    by (auto simp: Let_def)
  from 1 2 3 show ?thesis by blast
qed

theorem reply_subject_re_once_witness:
  "(\<exists>info. fst (get_message_for_reply (msg_with [(''Subject'', ''Quarterly Report'')]) ''m1'' []) = Inr info
       \<and> r_subject info = ''Re: Quarterly Report'' \<and> begins_with_re (r_subject info))
   \<and> (\<exists>info'. fst (get_message_for_reply (msg_with [(''Subject'', ''Re: Quarterly Report'')]) ''m2'' [])
                   = Inr info'
       \<and> r_subject info' = ''Re: Quarterly Report'')"
proof -
  let ?msg = "\<lparr> msg_headers = [(''Subject'', ''Quarterly Report'')], msg_threadId = Some ''t1'' \<rparr>"
  let ?msg' = "\<lparr> msg_headers = [(''Subject'', ''Re: Quarterly Report'')], msg_threadId = Some ''t1'' \<rparr>"
  let ?info = "\<lparr> r_to = [], r_subject = ''Re: Quarterly Report'', r_thread_id = Some ''t1'',
                 r_message_id = [], r_references = [] \<rparr>"
  have g: "msg_with [(''Subject'', ''Quarterly Report'')] ''m1'' = Inr ?msg"
    by (simp add: msg_with_def)
  have g': "msg_with [(''Subject'', ''Re: Quarterly Report'')] ''m2'' = Inr ?msg'"
    by (simp add: msg_with_def)
  have s: "''Quarterly Report'' = dict_get (headers_dict (msg_headers ?msg)) ''Subject'' ''(no subject)''"
    by (simp add: headers_dict_def dict_get_def)
  have i: "fst (get_message_for_reply (msg_with [(''Subject'', ''Quarterly Report'')]) ''m1'' []) = Inr ?info"
    by (simp add: get_message_for_reply_def msg_with_def headers_dict_def dict_get_def
        startswith_def lower_def lower_char_def Let_def)
  have s': "dict_get (headers_dict (msg_headers ?msg')) ''Subject'' ''(no subject)'' = r_subject ?info"
    by (simp add: headers_dict_def dict_get_def)
  from reply_subject_re_once
    [where messages_get = "msg_with [(''Subject'', ''Quarterly Report'')]" and mid = "''m1''"
       and msg = ?msg and s = "''Quarterly Report''"
       and messages_get' = "msg_with [(''Subject'', ''Re: Quarterly Report'')]" and mid' = "''m2''"
       and msg' = ?msg' and calls = "[]" and info = ?info and calls' = "[]", OF g s g' i s'] i
  show ?thesis by simp
qed

section \<open>Properties of the download of attachments\<close>

declare str_nat.simps [simp del]

lemma split_on_no_sep: "x \<in> set (split_on sep s) \<Longrightarrow> sep \<notin> set x"
  by (induction s arbitrary: x) (auto split: if_splits list.splits)

lemma split_on_whole: "sep \<notin> set s \<Longrightarrow> split_on sep s = [s]"
  by (induction s) auto

lemma path_name_no_slash: "CHR ''/'' \<notin> set (path_name (Path s))"
proof (cases "p_parts (Path s) = []")
  case True
  then show ?thesis by (simp add: path_name_def)
next
  case False
  then have "last (p_parts (Path s)) \<in> set (split_on CHR ''/'' s)"
    using last_in_set [OF False] by (simp add: Path_def)
  then show ?thesis
    using False by (simp add: path_name_def split_on_no_sep)
qed

lemma stem_suffix_name: "path_stem p @ path_suffix p = path_name p"
  by (simp add: path_stem_def path_suffix_def Let_def)

lemma stem_no_slash: "CHR ''/'' \<notin> set (path_stem (Path s))"
  using path_name_no_slash [of s] stem_suffix_name [of "Path s"]
  by (metis Un_iff set_append)

lemma suffix_no_slash: "CHR ''/'' \<notin> set (path_suffix (Path s))"
  using path_name_no_slash [of s] stem_suffix_name [of "Path s"]
  by (metis Un_iff set_append)

lemma of_char_digit_char: "n < 10 \<Longrightarrow> (of_char (digit_char n) :: nat) = 48 + n"
  by (simp add: digit_char_def of_char_of)

lemma digit_char_inj:
  assumes "m < 10" and "n < 10" and "digit_char m = digit_char n"
  shows "m = n"
proof -
  have "(of_char (digit_char m) :: nat) = of_char (digit_char n)"
    by (simp only: assms(3))
  then have "48 + m = 48 + n"
    by (simp only: of_char_digit_char [OF assms(1)] of_char_digit_char [OF assms(2)])
  then show ?thesis by simp
qed

lemma digit_char_no_slash: "n < 10 \<Longrightarrow> digit_char n \<noteq> CHR ''/''"
  using of_char_digit_char [of n] by auto

lemma str_nat_nonempty: "str_nat n \<noteq> []"
  by (subst str_nat.simps) simp

lemma str_nat_no_slash: "CHR ''/'' \<notin> set (str_nat n)"
proof (induction n rule: str_nat.induct)
  case (1 n)
  show ?case
  proof (cases "n < 10")
    case True
    then show ?thesis
      using digit_char_no_slash [of n] by (subst str_nat.simps) auto
  next
    case False
    then show ?thesis
      using 1 digit_char_no_slash [of "n mod 10"] by (subst str_nat.simps) auto
  qed
qed

lemma str_nat_inj: "str_nat m = str_nat n \<Longrightarrow> m = n"
proof (induction m arbitrary: n rule: str_nat.induct)
  case (1 m)
  show ?case
  proof (cases "m < 10")
    case True
    then have m: "str_nat m = [digit_char m]"
      by (subst str_nat.simps) simp
    show ?thesis
    proof (cases "n < 10")
      case True
      then have "str_nat n = [digit_char n]"
        by (subst str_nat.simps) simp
      with m "1.prems" \<open>m < 10\<close> True show ?thesis
        by (simp add: digit_char_inj)
    next
      case False
      then have "str_nat n = str_nat (n div 10) @ [digit_char (n mod 10)]"
        by (subst str_nat.simps) simp
      with m "1.prems" str_nat_nonempty [of "n div 10"] show ?thesis
        by simp
    qed
  next
    case False
    then have m: "str_nat m = str_nat (m div 10) @ [digit_char (m mod 10)]"
      by (subst str_nat.simps) simp
    show ?thesis
    proof (cases "n < 10")
      case True
      then have "str_nat n = [digit_char n]"
        by (subst str_nat.simps) simp
      with m "1.prems" str_nat_nonempty [of "m div 10"] show ?thesis
        by simp
    next
      case nf: False
      then have n: "str_nat n = str_nat (n div 10) @ [digit_char (n mod 10)]"
        by (subst str_nat.simps) simp
      from m n "1.prems" have a: "str_nat (m div 10) = str_nat (n div 10)"
        and b: "digit_char (m mod 10) = digit_char (n mod 10)"
        by simp_all
      from "1.IH" [OF False a] have "m div 10 = n div 10" .
      moreover from b have "m mod 10 = n mod 10"
        by (simp add: digit_char_inj)
      ultimately show ?thesis
        by (metis div_mult_mod_eq)
    qed
  qed
qed

text \<open>The text that \<open>str\<close> puts before the last component of a path below \<open>p\<close>.\<close>

definition dir_prefix :: "pure_path \<Rightarrow> string" where
  "dir_prefix p = p_root p @ concat (map (\<lambda>c. c @ ''/'') (p_parts p))"

lemma join_sep_snoc: "join_sep (cs @ [x]) = concat (map (\<lambda>c. c @ ''/'') cs) @ x"
  by (induction cs rule: join_sep.induct) auto

lemma Path_single:
  assumes "CHR ''/'' \<notin> set nm" and "nm \<noteq> []" and "nm \<noteq> ''.''"
  shows "Path nm = \<lparr> p_root = [], p_parts = [nm] \<rparr>"
proof -
  from assms(1,2) have "path_root nm = []"
    by (cases nm) (auto simp: path_root_def startswith_def)
  with assms show ?thesis
    by (simp add: Path_def split_on_whole)
qed

lemma path_str_child:
  assumes "CHR ''/'' \<notin> set nm" and "nm \<noteq> []" and "nm \<noteq> ''.''"
  shows "path_str (joinpath p (Path nm)) = dir_prefix p @ nm"
  by (simp add: Path_single [OF assms] joinpath_def path_str_def dir_prefix_def join_sep_snoc)

lemma numbered_path_eq:
  "numbered_path d f k =
     dir_prefix (Path d) @ path_stem (Path f) @ ''_'' @ str_nat k @ path_suffix (Path f)"
proof -
  let ?nm = "path_stem (Path f) @ ''_'' @ str_nat k @ path_suffix (Path f)"
  have 1: "CHR ''/'' \<notin> set ?nm"
    using stem_no_slash [of f] suffix_no_slash [of f] str_nat_no_slash [of k] by simp
  have 2: "?nm \<noteq> []" by simp
  have 3: "?nm \<noteq> ''.''"
    using str_nat_nonempty [of k] by (cases "path_stem (Path f)") auto
  show ?thesis
    using path_str_child [OF 1 2 3] by (simp add: numbered_path_def Let_def)
qed

lemma numbered_path_inj: "numbered_path d f j = numbered_path d f k \<Longrightarrow> j = k"
  by (simp add: numbered_path_eq str_nat_inj)














section \<open>Properties of the credentials\<close>

lemma strip_scope: "SCOPES_MAP s = Some scopes \<Longrightarrow> strip s = s"
proof -
  assume "SCOPES_MAP s = Some scopes"
  then have "s = ''readonly'' \<or> s = ''modify'' \<or> s = ''full''"
    by (auto simp: SCOPES_MAP_def split: if_splits)
  then show ?thesis
    by (auto simp: strip_def is_space_def)
qed

text \<open>
  C2, as the code has it. With a persisted token that is expired and holds a refresh
  token (and a persisted scope that is one of the enumerated ones, or none),
  \<open>get_credentials\<close> makes exactly one exchange, the refresh. When the refresh succeeds
  the refreshed credentials are written to the token file and returned. When it raises,
  the exception leaves \<open>get_credentials\<close>: there is no handler around
  \<open>creds.refresh\<close>, nothing is written and no authorization flow is started.
\<close>

theorem get_credentials_refresh:
  assumes "token_file st = Some c" and "expired c" and "has_refresh_token c"
    and "SCOPES_MAP (get_current_scope st) = Some scopes"
  shows "(\<forall>c'. refresh env c = Inr c' \<longrightarrow>
            get_credentials env manual st evs =
              (Inr (Some c'), st\<lparr> credentials_dir := True, token_file := Some c' \<rparr>, evs @ [Refresh]))
         \<and> (\<forall>e. refresh env c = Inl e \<longrightarrow>
            get_credentials env manual st evs = (Inl e, st, evs @ [Refresh]))"
  using assms by (simp add: get_credentials_def valid_def persist_def)

text \<open>
  The claim C2 says that a failed refresh falls through to the full authorization. With
  the client secrets present and a flow that would succeed, the failure of the refresh is
  what \<open>get_credentials\<close> raises, and the only exchange made is the refresh.
\<close>

theorem get_credentials_refresh_counterexample:
  "token_file store_expired = Some expired_creds \<and> expired expired_creds
   \<and> has_refresh_token expired_creds \<and> client_secrets store_expired
   \<and> get_credentials env_refresh_fails False store_expired [] = (Inl RefreshError, store_expired, [Refresh])"
  by (simp add: store_defs get_credentials_def get_current_scope_def SCOPES_MAP_def
      strip_def is_space_def valid_def has_refresh_token_def)

theorem get_credentials_refresh_witness:
  "get_credentials env_refresh_ok False store_expired [] =
     (Inr (Some fresh_creds), store_expired\<lparr> credentials_dir := True, token_file := Some fresh_creds \<rparr>, [Refresh])
   \<and> get_credentials env_refresh_fails True store_expired [] = (Inl RefreshError, store_expired, [Refresh])"
proof -
  have t: "token_file store_expired = Some expired_creds" and e: "expired expired_creds"
    and h: "has_refresh_token expired_creds"
    by (simp_all add: store_defs has_refresh_token_def)
  have s: "SCOPES_MAP (get_current_scope store_expired) =
             Some [''https://www.googleapis.com/auth/gmail.readonly'',
                   ''https://www.googleapis.com/auth/gmail.modify'']"
    by (simp add: store_defs get_current_scope_def SCOPES_MAP_def strip_def is_space_def)
  have ok: "refresh env_refresh_ok expired_creds = Inr fresh_creds"
    and bad: "refresh env_refresh_fails expired_creds = Inl RefreshError"
    by (simp_all add: env_refresh_ok_def env_refresh_fails_def)
  from get_credentials_refresh [OF t e h s, of env_refresh_ok False "[]"] ok
    get_credentials_refresh [OF t e h s, of env_refresh_fails True "[]"] bad
  show ?thesis by simp
qed

text \<open>
  C3 at a state the claim does not hold in: before the directory \<open>~/.gmail_credentials\<close>
  exists (no command has created it yet), \<open>set_scope\<close> of the valid scope \<open>full\<close> raises
  \<open>FileNotFoundError\<close> from \<open>write_text\<close> and persists nothing, so the scope in force
  stays the default. \<open>cmd_setup\<close> and \<open>get_credentials\<close> create the directory before
  they write; \<open>set_scope\<close> does not.
\<close>

theorem set_scope_missing_directory:
  "SCOPES_MAP ''full'' = Some [''https://mail.google.com/'']
   \<and> set_scope ''full'' store_empty = (Inl FileNotFoundError, store_empty)
   \<and> get_current_scope (snd (set_scope ''full'' store_empty)) = ''modify''"
  by (simp add: set_scope_def store_defs SCOPES_MAP_def get_current_scope_def DEFAULT_SCOPE_def)

text \<open>
  Where the directory exists, \<open>set_scope\<close> does what C3 says: an invalid scope is
  refused with \<open>ValueError\<close> and the state is unchanged; a valid scope is written, the
  token file is removed, and the next \<open>get_credentials\<close> is the full authorization for
  the scopes of the new setting, without a refresh.
\<close>

lemma full_authorization_no_refresh:
  "Refresh \<notin> set evs \<Longrightarrow> Refresh \<notin> set (snd (snd (full_authorization env manual scopes st evs)))"
  by (auto simp: full_authorization_def persist_def Let_def split: sum.splits)

lemma set_scope_invalid: "SCOPES_MAP s = None \<Longrightarrow> set_scope s st = (Inl ValueError, st)"
  by (simp add: set_scope_def)

lemma set_scope_valid:
  assumes "SCOPES_MAP s = Some scopes" and "credentials_dir st"
  shows "set_scope s st = (Inr (), st\<lparr> scope_file := Some s, token_file := None \<rparr>)"
    and "get_credentials env manual (snd (set_scope s st)) evs
         = full_authorization env manual scopes (snd (set_scope s st)) evs"
    and "Refresh \<notin> set evs \<Longrightarrow>
         Refresh \<notin> set (snd (snd (get_credentials env manual (snd (set_scope s st)) evs)))"
proof -
  show 1: "set_scope s st = (Inr (), st\<lparr> scope_file := Some s, token_file := None \<rparr>)"
    using assms by (simp add: set_scope_def)
  show 2: "get_credentials env manual (snd (set_scope s st)) evs
         = full_authorization env manual scopes (snd (set_scope s st)) evs"
    using assms by (simp add: 1 get_credentials_def get_current_scope_def strip_scope)
  show "Refresh \<notin> set evs \<Longrightarrow>
         Refresh \<notin> set (snd (snd (get_credentials env manual (snd (set_scope s st)) evs)))"
    unfolding 2 by (rule full_authorization_no_refresh)
qed

section \<open>Properties of sending, drafting and replying\<close>

lemma validate_send_args_recipient:
  assumes "malformed_recipient args"
  shows "\<exists>err. validate_send_args args = Some err \<and> is_recipient_error err"
  using assms
  by (auto simp: malformed_recipient_def validate_send_args_def split: option.splits)

lemma authenticate_calls: "w_calls (snd (authenticate env w)) = w_calls w"
  by (auto simp: authenticate_def exit_with_def Let_def split: prod.splits sum.splits option.splits)

lemma exit_with_calls: "w_calls (snd (exit_with err w)) = w_calls w"
  by (simp add: exit_with_def)

text \<open>
  C8, as the code has it. \<open>send\<close> and \<open>draft\<close> given a recipient that \<open>validate_email\<close>
  refuses (the \<open>--to\<close> address, or an entry of \<open>--cc\<close> or \<open>--bcc\<close>) make no call to the
  mail service and do not succeed; once the command has its credentials it prints the
  error line of the recipient and exits with status 1.
\<close>

theorem malformed_recipient_rejected:
  assumes "malformed_recipient args"
  shows "w_calls (snd (cmd_send env encode service args w)) = w_calls w
         \<and> w_calls (snd (cmd_draft env encode service args w)) = w_calls w
         \<and> (\<exists>e. fst (cmd_send env encode service args w) = Inl e)
         \<and> (\<exists>e. fst (cmd_draft env encode service args w) = Inl e)
         \<and> (\<forall>c w1. authenticate env w = (Inr c, w1) \<longrightarrow>
               (\<exists>err. is_recipient_error err
                  \<and> cmd_send env encode service args w = exit_with err w1
                  \<and> cmd_draft env encode service args w = exit_with err w1))"
proof -
  from validate_send_args_recipient [OF assms]
  obtain err where v: "validate_send_args args = Some err" and r: "is_recipient_error err"
    by blast
  obtain a w1 where au: "authenticate env w = (a, w1)"
    by (cases "authenticate env w")
  have c1: "w_calls w1 = w_calls w"
    using authenticate_calls [of env w] au by simp
  show ?thesis
  proof (cases a)
    case (Inl stop)
    have "\<exists>e. stop = Inl e"
      using au Inl
      by (auto simp: authenticate_def exit_with_def Let_def split: prod.splits sum.splits option.splits)
    with au Inl c1 show ?thesis
      by (auto simp: cmd_send_def cmd_draft_def)
  next
    case (Inr c)
    with au v have "cmd_send env encode service args w = exit_with err w1"
      and "cmd_draft env encode service args w = exit_with err w1"
      by (simp_all add: cmd_send_def cmd_draft_def)
    with au Inr c1 r show ?thesis
      by (auto simp: exit_with_def)
  qed
qed


theorem malformed_recipient_rejected_witness:
  "malformed_recipient bad_to_args
   \<and> w_calls (snd (cmd_send env_refresh_ok encode_ok (service_ok []) bad_to_args world_valid)) = []
   \<and> w_calls (snd (cmd_draft env_refresh_ok encode_ok (service_ok []) bad_to_args world_valid)) = []
   \<and> fst (cmd_send env_refresh_ok encode_ok (service_ok []) bad_to_args world_valid) = Inl (SystemExit 1)
   \<and> w_printed (snd (cmd_send env_refresh_ok encode_ok (service_ok []) bad_to_args world_valid))
       = [InvalidEmail ''not-an-email'']"
proof -
  have v: "\<not> validate_email ''not-an-email''"
    by code_simp
  then have m: "malformed_recipient bad_to_args"
    by (simp add: malformed_recipient_def bad_to_args_def)
  have e: "cmd_send env_refresh_ok encode_ok (service_ok []) bad_to_args world_valid
           = exit_with (InvalidEmail ''not-an-email'') world_valid"
    by code_simp
  have c: "fst (cmd_send env_refresh_ok encode_ok (service_ok []) bad_to_args world_valid) = Inl (SystemExit 1)"
    "w_printed (snd (cmd_send env_refresh_ok encode_ok (service_ok []) bad_to_args world_valid))
       = [InvalidEmail ''not-an-email'']"
    unfolding e by (simp_all add: exit_with_def world_valid_def)
  have n: "w_calls world_valid = []"
    by (simp add: world_valid_def)
  from malformed_recipient_rejected [OF m, of env_refresh_ok encode_ok "service_ok []" world_valid]
  have "w_calls (snd (cmd_send env_refresh_ok encode_ok (service_ok []) bad_to_args world_valid)) = w_calls world_valid"
    and "w_calls (snd (cmd_draft env_refresh_ok encode_ok (service_ok []) bad_to_args world_valid)) = w_calls world_valid"
    by blast+
  with m c n show ?thesis
    by simp
qed

text \<open>
  The claim C8 fails in two ways. It includes \<open>reply\<close>, which has no recipient argument:
  the recipient comes from the From header of the original message, which is fetched from
  the mail service first, and it is never given to \<open>validate_email\<close>; with the From
  header \<open>not-an-email\<close> the reply is sent to that address, after two calls to the
  service. And \<open>send\<close> reports the recipient only once it has its credentials: without
  a token and without the client secrets, \<open>send\<close> to \<open>not-an-email\<close> exits with the line
  \<open>Not authenticated\<close>, not with the line of the recipient.
\<close>

theorem reply_recipient_counterexample:
  "\<not> validate_email ''not-an-email''
   \<and> fst (cmd_reply env_refresh_ok encode_ok (service_ok bad_sender_headers) some_reply_args world_valid)
       = Inr ()
   \<and> w_calls (snd (cmd_reply env_refresh_ok encode_ok (service_ok bad_sender_headers)
                      some_reply_args world_valid))
       = [MessagesGet ''m1'',
          MessagesSend
            \<lparr> o_headers = [(''To'', ''not-an-email''), (''From'', ''me''), (''Subject'', ''Re: hi''),
                           (''In-Reply-To'', ''<c>''), (''References'', ''<c>'')],
              o_html = False, o_body = ''text'', o_raw = ''raw'', o_threadId = Some ''t1'' \<rparr>]
   \<and> cmd_send env_refresh_ok encode_ok (service_ok []) bad_to_args world_empty
       = exit_with NotAuthenticated world_empty"
  by code_simp

end
